theory Spec2Isabelle
  imports Main "HOL-Library.Sublist" "HOL-Library.Word"
begin

section \<open>RepetierServer print-host client (src/slic3r/Utils/RepetierServer.cpp)\<close>

text \<open>
  A shallow embedding of \<^verbatim>\<open>RepetierServer::test\<close>, \<^verbatim>\<open>upload\<close>,
  \<^verbatim>\<open>validate_version_text\<close>, \<^verbatim>\<open>set_auth\<close> and \<^verbatim>\<open>make_url\<close>.

  Conventions of the embedding:
  \<^item> \<^verbatim>\<open>std::string\<close>, \<^verbatim>\<open>wxString\<close> and \<^verbatim>\<open>fs::path\<close> are \<open>string\<close>;
    \<^verbatim>\<open>GUI::from_u8\<close> and the message catalogue \<^verbatim>\<open>_utf8(L(...))\<close> are the identity
    (the untranslated catalogue);
  \<^item> a \<^verbatim>\<open>boost::format\<close> whose result becomes a value of the program (a URL, a path,
    a message) is written as the concatenation it renders; a \<^verbatim>\<open>BOOST_LOG_TRIVIAL\<close> line
    is recorded unrendered, as severity, format string and arguments;
  \<^item> variables a closure captures by reference (\<^verbatim>\<open>res\<close>, \<^verbatim>\<open>msg\<close>) are fields of an
    explicit state that every callback takes and returns;
  \<^item> the caller's callbacks are functions over a caller state \<open>'u\<close>, and every
    invocation of them is also recorded in a trace;
  \<^item> what lies outside the file (JSON parser, \<^verbatim>\<open>format_error\<close>, path splitting, the
    remote side of the HTTP exchange) is a field of the record \<open>env\<close>.
\<close>

subsection \<open>Strings\<close>

text \<open>
  \<^verbatim>\<open>boost::starts_with(Input, Test)\<close>: both ranges are walked in step; a differing
  character answers false, otherwise the answer is whether \<^verbatim>\<open>Test\<close> is exhausted.
\<close>

fun starts_with :: "string \<Rightarrow> string \<Rightarrow> bool" where
  "starts_with inp [] = True"
| "starts_with [] (t # ts) = False"
| "starts_with (c # cs) (t # ts) = (if c \<noteq> t then False else starts_with cs ts)"

text \<open>
  \<^verbatim>\<open>std::string::find(str)\<close>: the lowest position at which \<^verbatim>\<open>str\<close> occurs, \<open>None\<close> for
  \<^verbatim>\<open>npos\<close>.
\<close>

fun find_str :: "string \<Rightarrow> string \<Rightarrow> nat option" where
  "find_str [] pat = (if pat = [] then Some 0 else None)"
| "find_str (c # cs) pat =
     (if starts_with (c # cs) pat then Some 0 else map_option Suc (find_str cs pat))"

subsection \<open>Data\<close>

text \<open>The four members of \<^verbatim>\<open>RepetierServer\<close>, set once by the constructor.\<close>

record RepetierServer =
  host :: string
  apikey :: string
  cafile :: string
  printername :: string

text \<open>\<^verbatim>\<open>PrintHostUpload\<close> (declared in PrintHost.hpp): the three members \<^verbatim>\<open>upload\<close> reads.\<close>

record PrintHostUpload =
  source_path :: string
  upload_path :: string
  start_print :: bool

type_synonym status = "32 word"

datatype severity = Sev_debug | Sev_info | Sev_error

datatype log_arg = Str string | Uns status | Flag bool

datatype log_entry = Log severity string "log_arg list"

text \<open>
  \<^verbatim>\<open>boost::property_tree::ptree\<close>: a node holds a string and an ordered list of keyed
  children. \<^verbatim>\<open>get_optional<std::string>(key)\<close> for a key without the path separator
  (\<^verbatim>\<open>"version"\<close>, \<^verbatim>\<open>"name"\<close>) is the data of the child stored under that key, if
  there is one (the first, should a key be repeated); the translation to
  \<^verbatim>\<open>std::string\<close> never fails.
\<close>

datatype ptree = Ptree string "(string \<times> ptree) list"

fun get_optional :: "ptree \<Rightarrow> string \<Rightarrow> string option" where
  "get_optional (Ptree d cs) key =
     (case map_of cs key of None \<Rightarrow> None | Some (Ptree d' cs') \<Rightarrow> Some d')"

subsection \<open>HTTP requests and the transport\<close>

datatype http_method = GET | POST

datatype form_part = Form_field string string | Form_file string string string

record http_request =
  meth :: http_method
  url :: string
  headers :: "(string \<times> string) list"
  ca_file :: "string option"
  form :: "form_part list"

definition Http_get :: "string \<Rightarrow> http_request" where
  "Http_get u = \<lparr>meth = GET, url = u, headers = [], ca_file = None, form = []\<rparr>"

definition Http_post :: "string \<Rightarrow> http_request" where
  "Http_post u = \<lparr>meth = POST, url = u, headers = [], ca_file = None, form = []\<rparr>"

definition header :: "string \<Rightarrow> string \<Rightarrow> http_request \<Rightarrow> http_request" where
  "header k v http = http\<lparr>headers := headers http @ [(k, v)]\<rparr>"

definition form_add :: "string \<Rightarrow> string \<Rightarrow> http_request \<Rightarrow> http_request" where
  "form_add k v http = http\<lparr>form := form http @ [Form_field k v]\<rparr>"

definition form_add_file :: "string \<Rightarrow> string \<Rightarrow> string \<Rightarrow> http_request \<Rightarrow> http_request" where
  "form_add_file k path filename http = http\<lparr>form := form http @ [Form_file k path filename]\<rparr>"

text \<open>
  How an exchange ends: the arguments the transport hands to the \<^verbatim>\<open>on_error\<close> callback
  (body, error, status) or to the \<^verbatim>\<open>on_complete\<close> callback (body, status).
\<close>

datatype http_outcome =
  Transport_error string string status
| Transport_complete string status

text \<open>
  The collaborators of the file, taken as parameters:
  \<^item> \<open>read_json\<close> is \<^verbatim>\<open>pt::read_json\<close>, \<open>None\<close> where it throws;
  \<^item> \<open>format_error\<close> is \<^verbatim>\<open>PrintHost::format_error\<close> of the base class;
  \<^item> \<open>path_filename\<close> and \<open>path_parent_path\<close> are \<^verbatim>\<open>fs::path::filename\<close> and
    \<^verbatim>\<open>fs::path::parent_path\<close>;
  \<^item> \<open>remote\<close> is the far side of an exchange: for a request, the progress snapshots
    the transport would report while it runs, and how it ends.
\<close>

record 'p env =
  read_json :: "string \<Rightarrow> ptree option"
  format_error :: "string \<Rightarrow> string \<Rightarrow> status \<Rightarrow> string"
  path_filename :: "string \<Rightarrow> string"
  path_parent_path :: "string \<Rightarrow> string"
  remote :: "http_request \<Rightarrow> 'p list \<times> http_outcome"

text \<open>
  \<^verbatim>\<open>perform_sync\<close> on a request with no progress callback registered, as in
  \<^verbatim>\<open>test\<close>: the transport calls the callback registered for the way the exchange
  ended, with the arguments of the outcome.
\<close>

fun perform_sync ::
  "(string \<Rightarrow> string \<Rightarrow> status \<Rightarrow> 's \<Rightarrow> 's) \<Rightarrow> (string \<Rightarrow> status \<Rightarrow> 's \<Rightarrow> 's) \<Rightarrow>
   http_outcome \<Rightarrow> 's \<Rightarrow> 's" where
  "perform_sync on_error on_complete (Transport_error body error st) s =
     on_error body error st s"
| "perform_sync on_error on_complete (Transport_complete body st) s =
     on_complete body st s"

text \<open>
  Modelled from the spec: the progress protocol of \<^verbatim>\<open>Http::perform_sync\<close> (Http.cpp
  is not among the sources). While the exchange is in flight the progress callback is
  invoked for each snapshot with a cancel flag that is clear; if the callback sets the
  flag the transfer is aborted and no further callback runs. Otherwise the exchange ends
  as above.
\<close>

fun perform_sync_with_progress ::
  "(string \<Rightarrow> string \<Rightarrow> status \<Rightarrow> 's \<Rightarrow> 's) \<Rightarrow> (string \<Rightarrow> status \<Rightarrow> 's \<Rightarrow> 's) \<Rightarrow>
   ('p \<Rightarrow> bool \<Rightarrow> 's \<Rightarrow> bool \<times> 's) \<Rightarrow> 'p list \<times> http_outcome \<Rightarrow> 's \<Rightarrow> 's" where
  "perform_sync_with_progress on_error on_complete on_progress ([], out) s =
     perform_sync on_error on_complete out s"
| "perform_sync_with_progress on_error on_complete on_progress (p # ps, out) s =
     (case on_progress p False s of
        (cancel, s') \<Rightarrow>
          if cancel then s'
          else perform_sync_with_progress on_error on_complete on_progress (ps, out) s')"

subsection \<open>The helpers of the class\<close>

definition get_name :: string where
  "get_name = ''RepetierServer''"

definition validate_version_text :: "string option \<Rightarrow> bool" where
  "validate_version_text version_text =
     (case version_text of
        Some t \<Rightarrow> starts_with t ''Repetier-Server''
      | None \<Rightarrow> True)"

definition set_auth :: "RepetierServer \<Rightarrow> http_request \<Rightarrow> http_request" where
  "set_auth srv http =
     (let http1 = header ''X-Api-Key'' (apikey srv) http
      in if cafile srv \<noteq> [] then http1\<lparr>ca_file := Some (cafile srv)\<rparr> else http1)"

text \<open>
  \<^verbatim>\<open>make_url\<close>. \<^verbatim>\<open>host.back()\<close> is read only after one of the two scheme tests has
  succeeded, so the host is not empty there.
\<close>

definition make_url :: "RepetierServer \<Rightarrow> string \<Rightarrow> string" where
  "make_url srv path =
     (if find_str (host srv) ''http://'' = Some 0 \<or> find_str (host srv) ''https://'' = Some 0
      then (if last (host srv) = CHR ''/''
            then host srv @ path
            else host srv @ ''/'' @ path)
      else ''http://'' @ host srv @ ''/'' @ path)"

subsection \<open>The connectivity probe\<close>

text \<open>
  What the closures of \<^verbatim>\<open>test\<close> share: the result \<^verbatim>\<open>res\<close>, the caller's \<^verbatim>\<open>msg\<close>
  (passed by reference, so it enters with the caller's value), the log lines written and
  the requests handed to the transport.
\<close>

record probe_state =
  p_res :: bool
  p_msg :: string
  p_logged :: "log_entry list"
  p_requests :: "http_request list"

datatype exn = Std_exception

definition test_on_error ::
  "'p env \<Rightarrow> string \<Rightarrow> string \<Rightarrow> string \<Rightarrow> status \<Rightarrow> probe_state \<Rightarrow> probe_state" where
  "test_on_error env name body error st s =
     (let s1 = s\<lparr>p_logged := p_logged s @
                 [Log Sev_error ''%1%: Error getting version: %2%, HTTP %3%, body: `%4%`''
                    [Str name, Str error, Uns st, Str body]]\<rparr>;
          s2 = s1\<lparr>p_res := False\<rparr>
      in s2\<lparr>p_msg := format_error env body error st\<rparr>)"

text \<open>
  The \<^verbatim>\<open>try\<close> block of the \<^verbatim>\<open>on_complete\<close> closure. \<^verbatim>\<open>pt::read_json\<close> throws on a
  malformed body (\<open>read_json env body = None\<close>), before anything is assigned; the early
  \<^verbatim>\<open>return\<close> of the missing \<^verbatim>\<open>"version"\<close> leaves with \<^verbatim>\<open>res\<close> cleared only.
\<close>

definition test_try_block :: "'p env \<Rightarrow> string \<Rightarrow> probe_state \<Rightarrow> exn + probe_state" where
  "test_try_block env body s =
     (case read_json env body of
        None \<Rightarrow> Inl Std_exception
      | Some ptree \<Rightarrow>
          (case get_optional ptree ''version'' of
             None \<Rightarrow> Inr (s\<lparr>p_res := False\<rparr>)
           | Some v \<Rightarrow>
               (let text = get_optional ptree ''name'';
                    s1 = s\<lparr>p_res := validate_version_text text\<rparr>
                in if \<not> p_res s1
                   then Inr (s1\<lparr>p_msg := ''Mismatched type of print host: '' @
                                (case text of Some t \<Rightarrow> t | None \<Rightarrow> ''Repetier-Server'')\<rparr>)
                   else Inr s1)))"

definition test_on_complete ::
  "'p env \<Rightarrow> string \<Rightarrow> string \<Rightarrow> status \<Rightarrow> probe_state \<Rightarrow> probe_state" where
  "test_on_complete env name body st s =
     (let s1 = s\<lparr>p_logged := p_logged s @
                 [Log Sev_debug ''%1%: Got version: %2%'' [Str name, Str body]]\<rparr>
      in case test_try_block env body s1 of
           Inr s2 \<Rightarrow> s2
         | Inl e \<Rightarrow> s1\<lparr>p_res := False, p_msg := ''Could not parse server response''\<rparr>)"

text \<open>The GET request of the probe, as \<^verbatim>\<open>test\<close> builds it.\<close>

definition probe_request :: "RepetierServer \<Rightarrow> http_request" where
  "probe_request srv = set_auth srv (Http_get (make_url srv ''printer/info''))"

text \<open>
  \<^verbatim>\<open>test(msg)\<close>: the final state holds the returned \<^verbatim>\<open>res\<close> and the caller's \<^verbatim>\<open>msg\<close>
  as the call leaves it. No progress callback is registered, so the snapshots of the
  remote side go unseen.
\<close>

definition test :: "'p env \<Rightarrow> RepetierServer \<Rightarrow> string \<Rightarrow> probe_state" where
  "test env srv msg =
     (let name = get_name;
          url = make_url srv ''printer/info'';
          s0 = \<lparr>p_res = True, p_msg = msg,
                p_logged = [Log Sev_info ''%1%: Get version at: %2%'' [Str name, Str url]],
                p_requests = []\<rparr>;
          http = probe_request srv;
          s1 = s0\<lparr>p_requests := p_requests s0 @ [http]\<rparr>
      in perform_sync (test_on_error env name) (test_on_complete env name)
           (snd (remote env http)) s1)"

subsection \<open>Upload\<close>

text \<open>
  The state of one \<^verbatim>\<open>upload\<close> call: the local \<^verbatim>\<open>res\<close> it returns, the log, the arguments
  of every \<^verbatim>\<open>error_fn\<close> call, the cancel flag as every \<^verbatim>\<open>prorgess_fn\<close> call left it,
  the requests handed to the transport, and the caller's own state.
\<close>

record 'u upload_state =
  res :: bool
  logged :: "log_entry list"
  error_calls :: "string list"
  progress_calls :: "bool list"
  requests :: "http_request list"
  user :: 'u

definition cancel_entry :: log_entry where
  "cancel_entry = Log Sev_info ''RepetierSerer: Upload canceled'' []"

definition upload_on_complete :: "string \<Rightarrow> string \<Rightarrow> status \<Rightarrow> 'u upload_state \<Rightarrow> 'u upload_state" where
  "upload_on_complete name body st s =
     s\<lparr>logged := logged s @
         [Log Sev_debug ''%1%: File uploaded: HTTP %2%: %3%'' [Str name, Uns st, Str body]]\<rparr>"

definition upload_on_error ::
  "'p env \<Rightarrow> (string \<Rightarrow> 'u \<Rightarrow> 'u) \<Rightarrow> string \<Rightarrow> string \<Rightarrow> string \<Rightarrow> status \<Rightarrow>
   'u upload_state \<Rightarrow> 'u upload_state" where
  "upload_on_error env error_fn name body error st s =
     (let s1 = s\<lparr>logged := logged s @
                 [Log Sev_error ''%1%: Error uploading file: %2%, HTTP %3%, body: `%4%`''
                    [Str name, Str error, Uns st, Str body]]\<rparr>;
          m = format_error env body error st;
          s2 = s1\<lparr>error_calls := error_calls s1 @ [m], user := error_fn m (user s1)\<rparr>
      in s2\<lparr>res := False\<rparr>)"

definition upload_on_progress ::
  "('p \<Rightarrow> bool \<Rightarrow> 'u \<Rightarrow> bool \<times> 'u) \<Rightarrow> 'p \<Rightarrow> bool \<Rightarrow> 'u upload_state \<Rightarrow>
   bool \<times> 'u upload_state" where
  "upload_on_progress prorgess_fn progress cancel s =
     (case prorgess_fn progress cancel (user s) of
        (cancel', u') \<Rightarrow>
          (let s1 = s\<lparr>progress_calls := progress_calls s @ [cancel'], user := u'\<rparr>
           in if cancel'
              then (cancel', s1\<lparr>logged := logged s1 @ [cancel_entry], res := False\<rparr>)
              else (cancel', s1)))"

text \<open>
  The argument \<^verbatim>\<open>upload\<close> gives to \<^verbatim>\<open>make_url\<close>:
  \<^verbatim>\<open>boost::format("/printer/%1%/%2%") % (start_print ? "job" : "model") % printername\<close>.
\<close>

definition upload_url_path :: "RepetierServer \<Rightarrow> PrintHostUpload \<Rightarrow> string" where
  "upload_url_path srv upload_data =
     ''/printer/'' @ (if start_print upload_data then ''job'' else ''model'') @ ''/'' @
     printername srv"

text \<open>The multipart POST request, as \<^verbatim>\<open>upload\<close> builds it.\<close>

definition upload_request :: "'p env \<Rightarrow> RepetierServer \<Rightarrow> PrintHostUpload \<Rightarrow> http_request" where
  "upload_request env srv upload_data =
     form_add_file ''filename'' (source_path upload_data)
       (path_filename env (upload_path upload_data))
       (form_add ''a'' ''upload''
          (set_auth srv (Http_post (make_url srv (upload_url_path srv upload_data)))))"

definition upload ::
  "'p env \<Rightarrow> RepetierServer \<Rightarrow> PrintHostUpload \<Rightarrow> ('p \<Rightarrow> bool \<Rightarrow> 'u \<Rightarrow> bool \<times> 'u) \<Rightarrow>
   (string \<Rightarrow> 'u \<Rightarrow> 'u) \<Rightarrow> 'u \<Rightarrow> 'u upload_state" where
  "upload env srv upload_data prorgess_fn error_fn u =
     (let name = get_name;
          upload_filename = path_filename env (upload_path upload_data);
          upload_parent_path = path_parent_path env (upload_path upload_data);
          t = test env srv []
      in if \<not> p_res t
         then \<lparr>res = False, logged = p_logged t, error_calls = [p_msg t],
               progress_calls = [], requests = p_requests t, user = error_fn (p_msg t) u\<rparr>
         else
           (let url = make_url srv (upload_url_path srv upload_data);
                s0 = \<lparr>res = True,
                      logged = p_logged t @
                        [Log Sev_info
                           ''%1%: Uploading file %2% at %3%, filename: %4%, path: %5%, print: %6%''
                           [Str name, Str (source_path upload_data), Str url,
                            Str upload_filename, Str upload_parent_path,
                            Flag (start_print upload_data)]],
                      error_calls = [], progress_calls = [], requests = p_requests t,
                      user = u\<rparr>;
                http = upload_request env srv upload_data;
                s1 = s0\<lparr>requests := requests s0 @ [http]\<rparr>
            in perform_sync_with_progress (upload_on_error env error_fn name)
                 (upload_on_complete name) (upload_on_progress prorgess_fn)
                 (remote env http) s1))"

subsection \<open>A sample environment\<close>

text \<open>
  Concrete collaborators on which the theorems below are instantiated: a parse table for
  the response bodies of the probe, an error formatter, path splitting at the last slash,
  and a remote side that answers the GET with \<open>probe_end\<close> and the POST with
  \<open>upload_run\<close>.
\<close>

definition body_repetier :: string where
  \<open>body_repetier = ''{"version":"1.0","name":"Repetier-Server 0.92.2"}''\<close>

definition body_octoprint :: string where
  \<open>body_octoprint = ''{"version":"1.0","name":"OctoPrint"}''\<close>

definition body_no_name :: string where
  \<open>body_no_name = ''{"version":"1.0"}''\<close>

definition body_no_version :: string where
  \<open>body_no_version = ''{"name":"Repetier-Server 0.92.2"}''\<close>

definition body_not_json :: string where
  "body_not_json = ''<html>502 Bad Gateway</html>''"

definition sample_read_json :: "string \<Rightarrow> ptree option" where
  "sample_read_json body =
     (if body = body_repetier
      then Some (Ptree [] [(''version'', Ptree ''1.0'' []),
                           (''name'', Ptree ''Repetier-Server 0.92.2'' [])])
      else if body = body_octoprint
      then Some (Ptree [] [(''version'', Ptree ''1.0'' []), (''name'', Ptree ''OctoPrint'' [])])
      else if body = body_no_name
      then Some (Ptree [] [(''version'', Ptree ''1.0'' [])])
      else if body = body_no_version
      then Some (Ptree [] [(''name'', Ptree ''Repetier-Server 0.92.2'' [])])
      else None)"

definition sample_env :: "http_outcome \<Rightarrow> nat list \<times> http_outcome \<Rightarrow> nat env" where
  "sample_env probe_end upload_run =
     \<lparr>read_json = sample_read_json,
      format_error = (\<lambda>body error st. error @ '': '' @ body),
      path_filename = (\<lambda>p. rev (takeWhile (\<lambda>c. c \<noteq> CHR ''/'') (rev p))),
      path_parent_path = (\<lambda>p. rev (drop 1 (dropWhile (\<lambda>c. c \<noteq> CHR ''/'') (rev p)))),
      remote = (\<lambda>req. if meth req = GET then ([], probe_end) else upload_run)\<rparr>"

definition sample_server :: RepetierServer where
  "sample_server = \<lparr>host = ''example.com'', apikey = ''secret'', cafile = [], printername = ''Mk3''\<rparr>"

definition sample_job :: PrintHostUpload where
  "sample_job = \<lparr>source_path = ''/tmp/benchy.gcode'', upload_path = ''models/benchy.gcode'',
                  start_print = False\<rparr>"

text \<open>A progress callback that counts its calls in the caller state and cancels on the second.\<close>

definition cancel_on_second :: "nat \<Rightarrow> bool \<Rightarrow> nat \<Rightarrow> bool \<times> nat" where
  "cancel_on_second progress cancel calls = (if calls = 1 then True else cancel, Suc calls)"

text \<open>An error callback that leaves the caller state alone.\<close>

definition ignore_error :: "string \<Rightarrow> nat \<Rightarrow> nat" where
  "ignore_error m calls = calls"

section \<open>Properties\<close>

subsection \<open>String helpers\<close>

lemma starts_with_prefix: "starts_with s t = prefix t s"
  by (induction s t rule: starts_with.induct) auto

lemma find_str_zero: "(find_str s pat = Some 0) = prefix pat s"
  by (cases s) (auto simp: starts_with_prefix)

lemma last_is_suffix: "h \<noteq> [] \<Longrightarrow> (last h = c) = suffix [c] h"
proof
  assume "h \<noteq> []" and "last h = c"
  then have "h = butlast h @ [c]" by (metis append_butlast_last_id)
  then show "suffix [c] h" by (metis suffixI)
next
  assume "h \<noteq> []" and "suffix [c] h"
  then obtain zs where "h = zs @ [c]" by (auto simp: suffix_def)
  then show "last h = c" by simp
qed

lemma scheme_nonempty: "prefix ''http://'' h \<or> prefix ''https://'' h \<Longrightarrow> h \<noteq> []"
  by auto

subsection \<open>The URL builder\<close>

text \<open>
  Claim C4. \<^verbatim>\<open>make_url\<close> on the three hosts of the specification, and in general: a
  host that starts with \<^verbatim>\<open>http://\<close> or \<^verbatim>\<open>https://\<close> is followed by the path, with a
  \<^verbatim>\<open>/\<close> put between them exactly when the host does not end with one; any other host
  is put between \<^verbatim>\<open>http://\<close> and \<^verbatim>\<open>/\<close> followed by the path.
\<close>

theorem make_url_cases:
  "make_url \<lparr>host = ''example.com'', apikey = k, cafile = c, printername = n\<rparr> ''printer/info''
     = ''http://example.com/printer/info'' \<and>
   make_url \<lparr>host = ''http://example.com/'', apikey = k, cafile = c, printername = n\<rparr>
     ''printer/info'' = ''http://example.com/printer/info'' \<and>
   make_url \<lparr>host = ''https://example.com'', apikey = k, cafile = c, printername = n\<rparr>
     ''printer/info'' = ''https://example.com/printer/info'' \<and>
   ((prefix ''http://'' (host srv) \<or> prefix ''https://'' (host srv)) \<and> suffix ''/'' (host srv)
      \<longrightarrow> make_url srv path = host srv @ path) \<and>
   ((prefix ''http://'' (host srv) \<or> prefix ''https://'' (host srv)) \<and> \<not> suffix ''/'' (host srv)
      \<longrightarrow> make_url srv path = host srv @ ''/'' @ path) \<and>
   (\<not> prefix ''http://'' (host srv) \<and> \<not> prefix ''https://'' (host srv)
      \<longrightarrow> make_url srv path = ''http://'' @ host srv @ ''/'' @ path)"
proof -
  have ex1: "make_url \<lparr>host = ''example.com'', apikey = k, cafile = c, printername = n\<rparr>
      ''printer/info'' = ''http://example.com/printer/info''"
    by (simp add: make_url_def)
  have ex2: "make_url \<lparr>host = ''http://example.com/'', apikey = k, cafile = c, printername = n\<rparr>
      ''printer/info'' = ''http://example.com/printer/info''"
    by (simp add: make_url_def)
  have ex3: "make_url \<lparr>host = ''https://example.com'', apikey = k, cafile = c, printername = n\<rparr>
      ''printer/info'' = ''https://example.com/printer/info''"
    by (simp add: make_url_def)
  have g1: "(prefix ''http://'' (host srv) \<or> prefix ''https://'' (host srv)) \<and> suffix ''/'' (host srv)
      \<longrightarrow> make_url srv path = host srv @ path"
    using last_is_suffix [of "host srv" "CHR ''/''"] scheme_nonempty [of "host srv"]
    unfolding make_url_def find_str_zero by auto
  have g2: "(prefix ''http://'' (host srv) \<or> prefix ''https://'' (host srv)) \<and> \<not> suffix ''/'' (host srv)
      \<longrightarrow> make_url srv path = host srv @ ''/'' @ path"
    using last_is_suffix [of "host srv" "CHR ''/''"] scheme_nonempty [of "host srv"]
    unfolding make_url_def find_str_zero by auto
  have g3: "\<not> prefix ''http://'' (host srv) \<and> \<not> prefix ''https://'' (host srv)
      \<longrightarrow> make_url srv path = ''http://'' @ host srv @ ''/'' @ path"
    unfolding make_url_def find_str_zero by simp
  from ex1 ex2 ex3 g1 g2 g3 show ?thesis by blast
qed

theorem make_url_cases_witness:
  "prefix ''http://'' ''http://10.0.0.5:3344/'' \<and> suffix ''/'' ''http://10.0.0.5:3344/'' \<and>
   make_url \<lparr>host = ''http://10.0.0.5:3344/'', apikey = ''k'', cafile = [], printername = ''Mk3''\<rparr>
     ''printer/info'' = ''http://10.0.0.5:3344/printer/info'' \<and>
   prefix ''https://'' ''https://repetier.local'' \<and> \<not> suffix ''/'' ''https://repetier.local'' \<and>
   make_url \<lparr>host = ''https://repetier.local'', apikey = ''k'', cafile = [], printername = ''Mk3''\<rparr>
     ''printer/list'' = ''https://repetier.local/printer/list'' \<and>
   \<not> prefix ''http://'' ''10.0.0.5:3344'' \<and> \<not> prefix ''https://'' ''10.0.0.5:3344'' \<and>
   make_url \<lparr>host = ''10.0.0.5:3344'', apikey = ''k'', cafile = [], printername = ''Mk3''\<rparr>
     ''printer/info'' = ''http://10.0.0.5:3344/printer/info''"
proof -
  have s1: "suffix ''/'' ''http://10.0.0.5:3344/''"
    by (simp add: suffix_def)
  have s2: "\<not> suffix ''/'' ''https://repetier.local''"
    using last_is_suffix [of "''https://repetier.local''" "CHR ''/''"] by simp
  show ?thesis
    using s1 s2
      make_url_cases [of "''k''" "[]" "''Mk3''"
        "\<lparr>host = ''http://10.0.0.5:3344/'', apikey = ''k'', cafile = [], printername = ''Mk3''\<rparr>"
        "''printer/info''"]
      make_url_cases [of "''k''" "[]" "''Mk3''"
        "\<lparr>host = ''https://repetier.local'', apikey = ''k'', cafile = [], printername = ''Mk3''\<rparr>"
        "''printer/list''"]
      make_url_cases [of "''k''" "[]" "''Mk3''"
        "\<lparr>host = ''10.0.0.5:3344'', apikey = ''k'', cafile = [], printername = ''Mk3''\<rparr>"
        "''printer/info''"]
    by simp
qed

subsection \<open>The connectivity probe\<close>

lemma test_transport_error:
  assumes "remote env (probe_request srv) = (ps, Transport_error body error st)"
  shows "test env srv msg =
    \<lparr>p_res = False, p_msg = format_error env body error st,
     p_logged = [Log Sev_info ''%1%: Get version at: %2%''
                   [Str get_name, Str (make_url srv ''printer/info'')],
                 Log Sev_error ''%1%: Error getting version: %2%, HTTP %3%, body: `%4%`''
                   [Str get_name, Str error, Uns st, Str body]],
     p_requests = [probe_request srv]\<rparr>"
  using assms
  by (simp add: test_def test_on_error_def Let_def)

lemma test_transport_complete:
  assumes "remote env (probe_request srv) = (ps, Transport_complete body st)"
  shows "test env srv msg =
    test_on_complete env get_name body st
      \<lparr>p_res = True, p_msg = msg,
       p_logged = [Log Sev_info ''%1%: Get version at: %2%''
                     [Str get_name, Str (make_url srv ''printer/info'')]],
       p_requests = [probe_request srv]\<rparr>"
  using assms
  by (simp add: test_def Let_def)

lemma test_on_complete_fields:
  "p_requests (test_on_complete env name body st s) = p_requests s"
  "p_logged (test_on_complete env name body st s) =
     p_logged s @ [Log Sev_debug ''%1%: Got version: %2%'' [Str name, Str body]]"
  by (simp_all add: test_on_complete_def test_try_block_def Let_def
        split: option.splits sum.splits)

lemma test_on_complete_malformed:
  "read_json env body = None \<Longrightarrow>
   p_res (test_on_complete env name body st s) = False \<and>
   p_msg (test_on_complete env name body st s) = ''Could not parse server response''"
  by (simp add: test_on_complete_def test_try_block_def Let_def)

lemma test_on_complete_no_version:
  "read_json env body = Some ptree \<Longrightarrow> get_optional ptree ''version'' = None \<Longrightarrow>
   p_res (test_on_complete env name body st s) = False \<and>
   p_msg (test_on_complete env name body st s) = p_msg s"
  by (simp add: test_on_complete_def test_try_block_def Let_def)

lemma test_on_complete_versioned:
  "read_json env body = Some ptree \<Longrightarrow> get_optional ptree ''version'' = Some v \<Longrightarrow>
   p_res (test_on_complete env name body st s) =
     validate_version_text (get_optional ptree ''name'') \<and>
   p_msg (test_on_complete env name body st s) =
     (if validate_version_text (get_optional ptree ''name'') then p_msg s
      else ''Mismatched type of print host: '' @
           (case get_optional ptree ''name'' of Some t \<Rightarrow> t | None \<Rightarrow> ''Repetier-Server''))"
  by (simp add: test_on_complete_def test_try_block_def Let_def)

lemma validate_version_text_iff:
  "validate_version_text t =
     (t = None \<or> (\<exists>name. t = Some name \<and> prefix ''Repetier-Server'' name))"
  by (cases t) (simp_all add: validate_version_text_def starts_with_prefix)

lemma test_requests: "p_requests (test env srv msg) = [probe_request srv]"
proof (cases "remote env (probe_request srv)")
  case (Pair ps out)
  then show ?thesis
    by (cases out)
      (simp_all add: test_transport_error test_transport_complete test_on_complete_fields)
qed

text \<open>The sample environment, evaluated.\<close>

lemmas sample_bodies = body_repetier_def body_octoprint_def body_no_name_def
  body_no_version_def body_not_json_def

lemma sample_probe_answer:
  "remote (sample_env probe_end upload_run) (probe_request srv) = ([], probe_end)"
  by (simp add: sample_env_def probe_request_def set_auth_def header_def Http_get_def Let_def)

lemma sample_read_json_simps:
  "read_json (sample_env probe_end upload_run) body_repetier =
     Some (Ptree [] [(''version'', Ptree ''1.0'' []),
                     (''name'', Ptree ''Repetier-Server 0.92.2'' [])])"
  "read_json (sample_env probe_end upload_run) body_octoprint =
     Some (Ptree [] [(''version'', Ptree ''1.0'' []), (''name'', Ptree ''OctoPrint'' [])])"
  "read_json (sample_env probe_end upload_run) body_no_name =
     Some (Ptree [] [(''version'', Ptree ''1.0'' [])])"
  "read_json (sample_env probe_end upload_run) body_no_version =
     Some (Ptree [] [(''name'', Ptree ''Repetier-Server 0.92.2'' [])])"
  "read_json (sample_env probe_end upload_run) body_not_json = None"
  by (simp_all add: sample_env_def sample_read_json_def sample_bodies)

text \<open>
  Claim C2. When the exchange of the probe completes, the body parses and the parsed
  object has a \<^verbatim>\<open>"version"\<close>, \<^verbatim>\<open>test\<close> returns true exactly when \<^verbatim>\<open>"name"\<close> is absent
  or its value starts with \<^verbatim>\<open>Repetier-Server\<close>.
\<close>

theorem test_success_iff:
  assumes "remote env (probe_request srv) = (ps, Transport_complete body st)"
    and "read_json env body = Some ptree"
    and "get_optional ptree ''version'' = Some v"
  shows "p_res (test env srv msg) =
     (get_optional ptree ''name'' = None \<or>
      (\<exists>name. get_optional ptree ''name'' = Some name \<and> prefix ''Repetier-Server'' name))"
  using test_on_complete_versioned [OF assms(2,3)]
  by (simp add: test_transport_complete [OF assms(1)] validate_version_text_iff)

theorem test_success_iff_witness:
  "remote (sample_env (Transport_complete body_repetier 200) ([], Transport_complete [] 200))
     (probe_request sample_server) = ([], Transport_complete body_repetier 200) \<and>
   read_json (sample_env (Transport_complete body_repetier 200) ([], Transport_complete [] 200))
     body_repetier =
     Some (Ptree [] [(''version'', Ptree ''1.0'' []),
                     (''name'', Ptree ''Repetier-Server 0.92.2'' [])]) \<and>
   get_optional (Ptree [] [(''version'', Ptree ''1.0'' []),
                           (''name'', Ptree ''Repetier-Server 0.92.2'' [])])
     ''version'' = Some ''1.0'' \<and>
   get_optional (Ptree [] [(''version'', Ptree ''1.0'' []),
                           (''name'', Ptree ''Repetier-Server 0.92.2'' [])])
     ''name'' = Some ''Repetier-Server 0.92.2'' \<and>
   p_res (test (sample_env (Transport_complete body_repetier 200) ([], Transport_complete [] 200))
     sample_server ''stale'')"
proof -
  let ?E = "sample_env (Transport_complete body_repetier 200) ([], Transport_complete [] 200)"
  let ?T = "Ptree [] [(''version'', Ptree ''1.0'' []),
                      (''name'', Ptree ''Repetier-Server 0.92.2'' [])]"
  have h1: "remote ?E (probe_request sample_server) = ([], Transport_complete body_repetier 200)"
    by (rule sample_probe_answer)
  have h2: "read_json ?E body_repetier = Some ?T"
    by (rule sample_read_json_simps)
  have h3: "get_optional ?T ''version'' = Some ''1.0''"
    by simp
  show ?thesis
    using test_success_iff [OF h1 h2 h3, of "''stale''"] h1 h2 h3 by simp
qed

text \<open>
  Claim C7. When the probe fails the classification of the server family (the exchange
  completes, the body parses, \<^verbatim>\<open>"version"\<close> is there, \<^verbatim>\<open>"name"\<close> is there and does not
  start with \<^verbatim>\<open>Repetier-Server\<close>), \<^verbatim>\<open>test\<close> returns false and the message is
  \<^verbatim>\<open>Mismatched type of print host: \<close> followed by the name found, which it therefore
  contains.
\<close>

theorem test_mismatch_message:
  assumes "remote env (probe_request srv) = (ps, Transport_complete body st)"
    and "read_json env body = Some ptree"
    and "get_optional ptree ''version'' = Some v"
    and "get_optional ptree ''name'' = Some name"
    and "\<not> prefix ''Repetier-Server'' name"
  shows "\<not> p_res (test env srv msg) \<and>
     p_msg (test env srv msg) = ''Mismatched type of print host: '' @ name \<and>
     sublist name (p_msg (test env srv msg))"
proof -
  have v: "\<not> validate_version_text (get_optional ptree ''name'')"
    using assms(4,5) by (simp add: validate_version_text_iff)
  have m: "p_msg (test env srv msg) = ''Mismatched type of print host: '' @ name"
    using test_on_complete_versioned [OF assms(2,3)] v assms(4)
    by (simp add: test_transport_complete [OF assms(1)])
  have r: "\<not> p_res (test env srv msg)"
    using test_on_complete_versioned [OF assms(2,3)] v
    by (simp add: test_transport_complete [OF assms(1)])
  have "sublist name (''Mismatched type of print host: '' @ name @ [])"
    by (rule sublist_appendI)
  with m r show ?thesis by simp
qed

theorem test_mismatch_message_witness:
  "remote (sample_env (Transport_complete body_octoprint 200) ([], Transport_complete [] 200))
     (probe_request sample_server) = ([], Transport_complete body_octoprint 200) \<and>
   read_json (sample_env (Transport_complete body_octoprint 200) ([], Transport_complete [] 200))
     body_octoprint =
     Some (Ptree [] [(''version'', Ptree ''1.0'' []), (''name'', Ptree ''OctoPrint'' [])]) \<and>
   get_optional (Ptree [] [(''version'', Ptree ''1.0'' []), (''name'', Ptree ''OctoPrint'' [])])
     ''version'' = Some ''1.0'' \<and>
   get_optional (Ptree [] [(''version'', Ptree ''1.0'' []), (''name'', Ptree ''OctoPrint'' [])])
     ''name'' = Some ''OctoPrint'' \<and>
   \<not> prefix ''Repetier-Server'' ''OctoPrint'' \<and>
   \<not> p_res (test (sample_env (Transport_complete body_octoprint 200) ([], Transport_complete [] 200))
     sample_server []) \<and>
   p_msg (test (sample_env (Transport_complete body_octoprint 200) ([], Transport_complete [] 200))
     sample_server []) = ''Mismatched type of print host: OctoPrint''"
proof -
  let ?E = "sample_env (Transport_complete body_octoprint 200) ([], Transport_complete [] 200)"
  let ?T = "Ptree [] [(''version'', Ptree ''1.0'' []), (''name'', Ptree ''OctoPrint'' [])]"
  have h1: "remote ?E (probe_request sample_server) = ([], Transport_complete body_octoprint 200)"
    by (rule sample_probe_answer)
  have h2: "read_json ?E body_octoprint = Some ?T"
    by (rule sample_read_json_simps)
  have h3: "get_optional ?T ''version'' = Some ''1.0''"
    by simp
  have h4: "get_optional ?T ''name'' = Some ''OctoPrint''"
    by simp
  have h5: "\<not> prefix ''Repetier-Server'' ''OctoPrint''"
    by simp
  show ?thesis
    using test_mismatch_message [OF h1 h2 h3 h4 h5, of "[]"] h1 h2 h3 h4 h5 by simp
qed

text \<open>
  Claim C8. When the exchange of the probe completes and the body parses but the parsed
  object has no \<^verbatim>\<open>"version"\<close>, \<^verbatim>\<open>test\<close> returns false and leaves the caller's message
  as it was on entry (empty, when the caller passed an empty one).
\<close>

theorem test_missing_version:
  assumes "remote env (probe_request srv) = (ps, Transport_complete body st)"
    and "read_json env body = Some ptree"
    and "get_optional ptree ''version'' = None"
  shows "\<not> p_res (test env srv msg) \<and> p_msg (test env srv msg) = msg"
  using test_on_complete_no_version [OF assms(2,3)]
  by (simp add: test_transport_complete [OF assms(1)])

theorem test_missing_version_witness:
  "remote (sample_env (Transport_complete body_no_version 200) ([], Transport_complete [] 200))
     (probe_request sample_server) = ([], Transport_complete body_no_version 200) \<and>
   read_json (sample_env (Transport_complete body_no_version 200) ([], Transport_complete [] 200))
     body_no_version = Some (Ptree [] [(''name'', Ptree ''Repetier-Server 0.92.2'' [])]) \<and>
   get_optional (Ptree [] [(''name'', Ptree ''Repetier-Server 0.92.2'' [])]) ''version'' = None \<and>
   \<not> p_res (test (sample_env (Transport_complete body_no_version 200)
                     ([], Transport_complete [] 200)) sample_server []) \<and>
   p_msg (test (sample_env (Transport_complete body_no_version 200)
                  ([], Transport_complete [] 200)) sample_server []) = []"
proof -
  let ?E = "sample_env (Transport_complete body_no_version 200) ([], Transport_complete [] 200)"
  let ?T = "Ptree [] [(''name'', Ptree ''Repetier-Server 0.92.2'' [])]"
  have h1: "remote ?E (probe_request sample_server) = ([], Transport_complete body_no_version 200)"
    by (rule sample_probe_answer)
  have h2: "read_json ?E body_no_version = Some ?T"
    by (rule sample_read_json_simps)
  have h3: "get_optional ?T ''version'' = None"
    by simp
  show ?thesis
    using test_missing_version [OF h1 h2 h3, of "[]"] h1 h2 h3 by simp
qed

text \<open>
  Claim C9. When the exchange of the probe completes and the body does not parse, the
  \<^verbatim>\<open>try\<close> block ends in an exception, the closure catches it, and \<^verbatim>\<open>test\<close> returns
  false with the message \<^verbatim>\<open>Could not parse server response\<close>: the exception is turned
  into the returned value and the message.
\<close>

theorem test_malformed_body:
  assumes "remote env (probe_request srv) = (ps, Transport_complete body st)"
    and "read_json env body = None"
  shows "test_try_block env body s = Inl Std_exception \<and>
     \<not> p_res (test env srv msg) \<and>
     p_msg (test env srv msg) = ''Could not parse server response''"
  using test_on_complete_malformed [OF assms(2)] assms(2)
  by (simp add: test_transport_complete [OF assms(1)] test_try_block_def)

theorem test_malformed_body_witness:
  "remote (sample_env (Transport_complete body_not_json 200) ([], Transport_complete [] 200))
     (probe_request sample_server) = ([], Transport_complete body_not_json 200) \<and>
   read_json (sample_env (Transport_complete body_not_json 200) ([], Transport_complete [] 200))
     body_not_json = None \<and>
   \<not> p_res (test (sample_env (Transport_complete body_not_json 200)
                     ([], Transport_complete [] 200)) sample_server ''stale'') \<and>
   p_msg (test (sample_env (Transport_complete body_not_json 200)
                  ([], Transport_complete [] 200)) sample_server ''stale'')
     = ''Could not parse server response''"
proof -
  let ?E = "sample_env (Transport_complete body_not_json 200) ([], Transport_complete [] 200)"
  have h1: "remote ?E (probe_request sample_server) = ([], Transport_complete body_not_json 200)"
    by (rule sample_probe_answer)
  have h2: "read_json ?E body_not_json = None"
    by (rule sample_read_json_simps)
  show ?thesis
    using test_malformed_body [OF h1 h2, of _ "''stale''"] h1 h2 by simp
qed

lemma test_success_cause:
  assumes "p_res (test env srv msg)"
  shows "\<exists>ps body st ptree v.
       remote env (probe_request srv) = (ps, Transport_complete body st) \<and>
       read_json env body = Some ptree \<and>
       get_optional ptree ''version'' = Some v \<and>
       validate_version_text (get_optional ptree ''name'') \<and>
       p_msg (test env srv msg) = msg"
proof (cases "remote env (probe_request srv)")
  case (Pair ps out)
  show ?thesis
  proof (cases out)
    case (Transport_error body error st)
    with Pair assms show ?thesis by (simp add: test_transport_error)
  next
    case (Transport_complete body st)
    with Pair have t: "remote env (probe_request srv) = (ps, Transport_complete body st)"
      by simp
    show ?thesis
    proof (cases "read_json env body")
      case None
      with assms test_on_complete_malformed [OF None] show ?thesis
        by (simp add: test_transport_complete [OF t])
    next
      case parsed: (Some ptree)
      show ?thesis
      proof (cases "get_optional ptree ''version''")
        case None
        with assms test_on_complete_no_version [OF parsed None] show ?thesis
          by (simp add: test_transport_complete [OF t])
      next
        case (Some v)
        have ok: "validate_version_text (get_optional ptree ''name'')"
          using assms test_on_complete_versioned [OF parsed Some]
          by (simp add: test_transport_complete [OF t])
        have "p_msg (test env srv msg) = msg"
          using ok test_on_complete_versioned [OF parsed Some]
          by (simp add: test_transport_complete [OF t])
        with t parsed Some ok show ?thesis by blast
      qed
    qed
  qed
qed

text \<open>
  Claim C10. Whenever \<^verbatim>\<open>test\<close> returns true, the caller's message is what it was on
  entry, and the call was one whose exchange completed with a body that parses, has a
  \<^verbatim>\<open>"version"\<close>, and has no \<^verbatim>\<open>"name"\<close> or one that starts with \<^verbatim>\<open>Repetier-Server\<close>:
  the message is assigned on failure paths only.
\<close>

theorem test_success_keeps_msg:
  assumes "p_res (test env srv msg)"
  shows "p_msg (test env srv msg) = msg \<and>
     (\<exists>ps body st ptree v.
        remote env (probe_request srv) = (ps, Transport_complete body st) \<and>
        read_json env body = Some ptree \<and>
        get_optional ptree ''version'' = Some v \<and>
        (get_optional ptree ''name'' = None \<or>
         (\<exists>name. get_optional ptree ''name'' = Some name \<and> prefix ''Repetier-Server'' name)))"
  using test_success_cause [OF assms] unfolding validate_version_text_iff by blast

theorem test_success_keeps_msg_witness:
  "p_res (test (sample_env (Transport_complete body_no_name 200) ([], Transport_complete [] 200))
     sample_server ''stale'') \<and>
   p_msg (test (sample_env (Transport_complete body_no_name 200) ([], Transport_complete [] 200))
     sample_server ''stale'') = ''stale''"
proof -
  let ?E = "sample_env (Transport_complete body_no_name 200) ([], Transport_complete [] 200)"
  let ?T = "Ptree [] [(''version'', Ptree ''1.0'' [])]"
  have h1: "remote ?E (probe_request sample_server) = ([], Transport_complete body_no_name 200)"
    by (rule sample_probe_answer)
  have h2: "read_json ?E body_no_name = Some ?T"
    by (rule sample_read_json_simps)
  have h3: "get_optional ?T ''version'' = Some ''1.0''"
    by simp
  have ok: "p_res (test ?E sample_server ''stale'')"
    using test_on_complete_versioned [OF h2 h3]
    by (simp add: test_transport_complete [OF h1] validate_version_text_def)
  show ?thesis
    using test_success_keeps_msg [OF ok] ok by blast
qed

subsection \<open>Upload\<close>

lemma probe_request_meth: "meth (probe_request srv) = GET"
  by (simp add: probe_request_def set_auth_def header_def Http_get_def Let_def)

lemma upload_request_meth_url:
  "meth (upload_request env srv upload_data) = POST"
  "url (upload_request env srv upload_data) = make_url srv (upload_url_path srv upload_data)"
  by (simp_all add: upload_request_def form_add_file_def form_add_def set_auth_def header_def
        Http_post_def Let_def)

lemma upload_probe_failed:
  assumes "\<not> p_res (test env srv [])"
  shows "upload env srv upload_data prorgess_fn error_fn u =
    \<lparr>res = False, logged = p_logged (test env srv []),
     error_calls = [p_msg (test env srv [])], progress_calls = [],
     requests = [probe_request srv], user = error_fn (p_msg (test env srv [])) u\<rparr>"
  using assms by (simp add: upload_def Let_def test_requests)

lemma upload_probe_passed:
  assumes "p_res (test env srv [])"
  shows "upload env srv upload_data prorgess_fn error_fn u =
    perform_sync_with_progress (upload_on_error env error_fn get_name) (upload_on_complete get_name)
      (upload_on_progress prorgess_fn) (remote env (upload_request env srv upload_data))
      \<lparr>res = True,
       logged = p_logged (test env srv []) @
         [Log Sev_info
            ''%1%: Uploading file %2% at %3%, filename: %4%, path: %5%, print: %6%''
            [Str get_name, Str (source_path upload_data),
             Str (make_url srv (upload_url_path srv upload_data)),
             Str (path_filename env (upload_path upload_data)),
             Str (path_parent_path env (upload_path upload_data)),
             Flag (start_print upload_data)]],
       error_calls = [], progress_calls = [],
       requests = [probe_request srv, upload_request env srv upload_data], user = u\<rparr>"
  using assms by (simp add: upload_def Let_def test_requests)

lemma upload_on_progress_frame:
  "requests (snd (upload_on_progress prorgess_fn p c s)) = requests s"
  "error_calls (snd (upload_on_progress prorgess_fn p c s)) = error_calls s"
  by (simp_all add: upload_on_progress_def Let_def split: prod.splits)

lemma upload_run_requests:
  "requests (perform_sync_with_progress (upload_on_error env error_fn name) (upload_on_complete name)
      (upload_on_progress prorgess_fn) (ps, out) s) = requests s"
proof (induction ps arbitrary: s)
  case Nil
  show ?case
    by (cases out) (simp_all add: upload_on_error_def upload_on_complete_def Let_def)
next
  case (Cons p ps)
  obtain c s' where f: "upload_on_progress prorgess_fn p False s = (c, s')"
    by (cases "upload_on_progress prorgess_fn p False s")
  have "requests s' = requests s"
    using upload_on_progress_frame(1) [of prorgess_fn p False s] f by simp
  with f Cons.IH [of s'] show ?case by simp
qed

text \<open>What the progress closure does when the caller's callback leaves the flag set.\<close>

lemma upload_on_progress_cancel:
  assumes "prorgess_fn p c (user s) = (True, u')"
  shows "upload_on_progress prorgess_fn p c s =
     (True, s\<lparr>progress_calls := progress_calls s @ [True], user := u',
              logged := logged s @ [cancel_entry], res := False\<rparr>)"
  using assms by (simp add: upload_on_progress_def Let_def)

text \<open>
  A run of the exchange in which some call of the caller's progress callback left the flag
  set: \<^verbatim>\<open>res\<close> is false, no \<^verbatim>\<open>error_fn\<close> call was added, and the cancellation line
  was logged once.
\<close>

lemma upload_run_cancelled:
  assumes "True \<in> set (progress_calls (perform_sync_with_progress (upload_on_error env error_fn name)
      (upload_on_complete name) (upload_on_progress prorgess_fn) (ps, out) s))"
    and "True \<notin> set (progress_calls s)"
  shows "\<not> res (perform_sync_with_progress (upload_on_error env error_fn name)
      (upload_on_complete name) (upload_on_progress prorgess_fn) (ps, out) s) \<and>
    error_calls (perform_sync_with_progress (upload_on_error env error_fn name)
      (upload_on_complete name) (upload_on_progress prorgess_fn) (ps, out) s) = error_calls s \<and>
    count_list (logged (perform_sync_with_progress (upload_on_error env error_fn name)
      (upload_on_complete name) (upload_on_progress prorgess_fn) (ps, out) s)) cancel_entry
      = Suc (count_list (logged s) cancel_entry)"
  using assms
proof (induction ps arbitrary: s)
  case Nil
  then show ?case
    by (cases out) (simp_all add: upload_on_error_def upload_on_complete_def Let_def)
next
  case (Cons p ps)
  obtain c u' where f: "prorgess_fn p False (user s) = (c, u')"
    by (cases "prorgess_fn p False (user s)")
  show ?case
  proof (cases c)
    case True
    with f show ?thesis
      by (simp add: upload_on_progress_def Let_def)
  next
    case False
    let ?s' = "s\<lparr>progress_calls := progress_calls s @ [False], user := u'\<rparr>"
    have step: "perform_sync_with_progress (upload_on_error env error_fn name) (upload_on_complete name)
        (upload_on_progress prorgess_fn) (p # ps, out) s =
      perform_sync_with_progress (upload_on_error env error_fn name) (upload_on_complete name)
        (upload_on_progress prorgess_fn) (ps, out) ?s'"
      using f False by (simp add: upload_on_progress_def Let_def)
    have "True \<notin> set (progress_calls ?s')"
      using Cons.prems(2) by simp
    with Cons.IH [of ?s'] Cons.prems(1) show ?thesis
      unfolding step by simp
  qed
qed

lemma test_log_no_cancel: "count_list (p_logged (test env srv msg)) cancel_entry = 0"
proof (cases "remote env (probe_request srv)")
  case (Pair ps out)
  then show ?thesis
    by (cases out)
      (simp_all add: test_transport_error test_transport_complete test_on_complete_fields
         cancel_entry_def)
qed

lemma upload_requests_passed:
  assumes "p_res (test env srv [])"
  shows "requests (upload env srv upload_data prorgess_fn error_fn u) =
       [probe_request srv, upload_request env srv upload_data]"
proof -
  obtain ps out where r: "remote env (upload_request env srv upload_data) = (ps, out)"
    by (cases "remote env (upload_request env srv upload_data)")
  show ?thesis
    unfolding upload_probe_passed [OF assms] r by (simp add: upload_run_requests)
qed

lemma sample_upload_answer:
  "remote (sample_env probe_end upload_run) (upload_request env srv upload_data) = upload_run"
  by (simp add: sample_env_def upload_request_meth_url)

lemma sample_probe_passes:
  "p_res (test (sample_env (Transport_complete body_no_name 200) upload_run) sample_server msg)"
proof -
  let ?E = "sample_env (Transport_complete body_no_name 200) upload_run"
  let ?T = "Ptree [] [(''version'', Ptree ''1.0'' [])]"
  have h1: "remote ?E (probe_request sample_server) = ([], Transport_complete body_no_name 200)"
    by (rule sample_probe_answer)
  have h2: "read_json ?E body_no_name = Some ?T"
    by (rule sample_read_json_simps)
  have h3: "get_optional ?T ''version'' = Some ''1.0''"
    by simp
  show ?thesis
    using test_on_complete_versioned [OF h2 h3]
    by (simp add: test_transport_complete [OF h1] validate_version_text_def)
qed

text \<open>
  Claim C1. When the probe fails, \<^verbatim>\<open>upload\<close> calls \<^verbatim>\<open>error_fn\<close> once, with the message
  of the probe, returns false, and the only request it has handed to the transport is the
  GET of the probe: no POST is issued.
\<close>

theorem upload_probe_failure:
  assumes "\<not> p_res (test env srv [])"
  shows "\<not> res (upload env srv upload_data prorgess_fn error_fn u) \<and>
     error_calls (upload env srv upload_data prorgess_fn error_fn u) = [p_msg (test env srv [])] \<and>
     user (upload env srv upload_data prorgess_fn error_fn u) = error_fn (p_msg (test env srv [])) u \<and>
     requests (upload env srv upload_data prorgess_fn error_fn u) = [probe_request srv] \<and>
     filter (\<lambda>r. meth r = POST) (requests (upload env srv upload_data prorgess_fn error_fn u)) = []"
  by (simp add: upload_probe_failed [OF assms] probe_request_meth)

theorem upload_probe_failure_witness:
  "\<not> p_res (test (sample_env (Transport_error ''Unauthorized'' ''HTTP 401'' 401)
                    ([], Transport_complete [] 200)) sample_server []) \<and>
   \<not> res (upload (sample_env (Transport_error ''Unauthorized'' ''HTTP 401'' 401)
                    ([], Transport_complete [] 200))
            sample_server sample_job cancel_on_second ignore_error 0) \<and>
   error_calls (upload (sample_env (Transport_error ''Unauthorized'' ''HTTP 401'' 401)
                          ([], Transport_complete [] 200))
                  sample_server sample_job cancel_on_second ignore_error 0)
     = [''HTTP 401: Unauthorized''] \<and>
   requests (upload (sample_env (Transport_error ''Unauthorized'' ''HTTP 401'' 401)
                       ([], Transport_complete [] 200))
               sample_server sample_job cancel_on_second ignore_error 0)
     = [probe_request sample_server]"
proof -
  let ?E = "sample_env (Transport_error ''Unauthorized'' ''HTTP 401'' 401)
              ([], Transport_complete [] 200)"
  have h1: "remote ?E (probe_request sample_server) =
      ([], Transport_error ''Unauthorized'' ''HTTP 401'' 401)"
    by (rule sample_probe_answer)
  have t: "test ?E sample_server [] =
      \<lparr>p_res = False, p_msg = ''HTTP 401: Unauthorized'',
       p_logged = [Log Sev_info ''%1%: Get version at: %2%''
                     [Str get_name, Str (make_url sample_server ''printer/info'')],
                   Log Sev_error ''%1%: Error getting version: %2%, HTTP %3%, body: `%4%`''
                     [Str get_name, Str ''HTTP 401'', Uns 401, Str ''Unauthorized'']],
       p_requests = [probe_request sample_server]\<rparr>"
    unfolding test_transport_error [OF h1] by (simp add: sample_env_def)
  have failed: "\<not> p_res (test ?E sample_server [])"
    unfolding t by simp
  show ?thesis
    using upload_probe_failure [OF failed, of sample_job cancel_on_second ignore_error 0] failed
    by (simp add: t)
qed

text \<open>
  Claim C3. When some call of the caller's progress callback leaves the cancel flag set,
  \<^verbatim>\<open>upload\<close> returns false, \<^verbatim>\<open>error_fn\<close> is not called, and the line
  \<^verbatim>\<open>RepetierSerer: Upload canceled\<close> is in the log.
\<close>

theorem upload_cancelled:
  assumes "True \<in> set (progress_calls (upload env srv upload_data prorgess_fn error_fn u))"
  shows "\<not> res (upload env srv upload_data prorgess_fn error_fn u) \<and>
     error_calls (upload env srv upload_data prorgess_fn error_fn u) = [] \<and>
     cancel_entry \<in> set (logged (upload env srv upload_data prorgess_fn error_fn u))"
proof (cases "p_res (test env srv [])")
  case False
  with assms show ?thesis by (simp add: upload_probe_failed)
next
  case True
  obtain ps out where r: "remote env (upload_request env srv upload_data) = (ps, out)"
    by (cases "remote env (upload_request env srv upload_data)")
  define s0 where "s0 =
      \<lparr>res = True,
       logged = p_logged (test env srv []) @
         [Log Sev_info
            ''%1%: Uploading file %2% at %3%, filename: %4%, path: %5%, print: %6%''
            [Str get_name, Str (source_path upload_data),
             Str (make_url srv (upload_url_path srv upload_data)),
             Str (path_filename env (upload_path upload_data)),
             Str (path_parent_path env (upload_path upload_data)),
             Flag (start_print upload_data)]],
       error_calls = [], progress_calls = [],
       requests = [probe_request srv, upload_request env srv upload_data], user = u\<rparr>"
  have up: "upload env srv upload_data prorgess_fn error_fn u =
      perform_sync_with_progress (upload_on_error env error_fn get_name) (upload_on_complete get_name)
        (upload_on_progress prorgess_fn) (ps, out) s0"
    using upload_probe_passed [OF True, of upload_data prorgess_fn error_fn u] r
    by (simp add: s0_def)
  have n: "True \<notin> set (progress_calls s0)"
    by (simp add: s0_def)
  have e: "error_calls s0 = []"
    by (simp add: s0_def)
  have l: "count_list (logged s0) cancel_entry = 0"
    by (simp add: s0_def test_log_no_cancel) (simp add: cancel_entry_def)
  from assms have "True \<in> set (progress_calls
      (perform_sync_with_progress (upload_on_error env error_fn get_name) (upload_on_complete get_name)
        (upload_on_progress prorgess_fn) (ps, out) s0))"
    unfolding up .
  from upload_run_cancelled [OF this n] e l
  have "\<not> res (upload env srv upload_data prorgess_fn error_fn u) \<and>
     error_calls (upload env srv upload_data prorgess_fn error_fn u) = [] \<and>
     count_list (logged (upload env srv upload_data prorgess_fn error_fn u)) cancel_entry \<noteq> 0"
    unfolding up by simp
  then show ?thesis
    by (simp add: count_list_0_iff)
qed

theorem upload_cancelled_witness:
  "progress_calls (upload (sample_env (Transport_complete body_no_name 200)
                             ([10, 50, 90], Transport_complete [] 200))
                     sample_server sample_job cancel_on_second ignore_error 0) = [False, True] \<and>
   \<not> res (upload (sample_env (Transport_complete body_no_name 200)
                    ([10, 50, 90], Transport_complete [] 200))
            sample_server sample_job cancel_on_second ignore_error 0) \<and>
   error_calls (upload (sample_env (Transport_complete body_no_name 200)
                          ([10, 50, 90], Transport_complete [] 200))
                  sample_server sample_job cancel_on_second ignore_error 0) = [] \<and>
   cancel_entry \<in> set (logged (upload (sample_env (Transport_complete body_no_name 200)
                                            ([10, 50, 90], Transport_complete [] 200))
                                    sample_server sample_job cancel_on_second ignore_error 0))"
proof -
  let ?E = "sample_env (Transport_complete body_no_name 200)
              ([10, 50, 90], Transport_complete [] 200)"
  let ?U = "upload ?E sample_server sample_job cancel_on_second ignore_error 0"
  have calls: "progress_calls ?U = [False, True]"
    by (simp add: upload_probe_passed [OF sample_probe_passes] sample_upload_answer
          upload_on_progress_def cancel_on_second_def Let_def)
  then have hyp: "True \<in> set (progress_calls ?U)"
    by simp
  show ?thesis
    using upload_cancelled [OF hyp] calls by simp
qed

text \<open>
  Claim C6. When the probe passes, \<^verbatim>\<open>upload\<close> issues one POST after the GET of the
  probe; its URL is \<^verbatim>\<open>make_url\<close> of the path \<^verbatim>\<open>/printer/job/\<close> followed by the printer
  name when \<^verbatim>\<open>start_print\<close> is set, and of \<^verbatim>\<open>/printer/model/\<close> followed by the printer
  name otherwise; the printer name is copied as it is.
\<close>

theorem upload_path_job_or_model:
  assumes "p_res (test env srv [])"
  shows "requests (upload env srv upload_data prorgess_fn error_fn u) =
       [probe_request srv, upload_request env srv upload_data] \<and>
     meth (upload_request env srv upload_data) = POST \<and>
     url (upload_request env srv upload_data) = make_url srv (upload_url_path srv upload_data) \<and>
     upload_url_path srv upload_data =
       (if start_print upload_data then ''/printer/job/'' @ printername srv
        else ''/printer/model/'' @ printername srv)"
  using upload_requests_passed [OF assms, of upload_data prorgess_fn error_fn u]
  by (simp add: upload_request_meth_url upload_url_path_def)

theorem upload_path_job_or_model_witness:
  "p_res (test (sample_env (Transport_complete body_no_name 200) ([], Transport_complete [] 200))
            sample_server []) \<and>
   requests (upload (sample_env (Transport_complete body_no_name 200)
                       ([], Transport_complete [] 200))
               sample_server sample_job cancel_on_second ignore_error 0)
     = [probe_request sample_server,
        upload_request (sample_env (Transport_complete body_no_name 200)
                          ([], Transport_complete [] 200)) sample_server sample_job] \<and>
   upload_url_path sample_server sample_job = ''/printer/model/Mk3'' \<and>
   upload_url_path sample_server (sample_job\<lparr>start_print := True\<rparr>) = ''/printer/job/Mk3''"
proof -
  let ?E = "sample_env (Transport_complete body_no_name 200) ([], Transport_complete [] 200)"
  have ok: "p_res (test ?E sample_server [])"
    by (rule sample_probe_passes)
  show ?thesis
    using upload_path_job_or_model [OF ok, of sample_job cancel_on_second ignore_error 0]
      upload_path_job_or_model [OF ok, of "sample_job\<lparr>start_print := True\<rparr>"
        cancel_on_second ignore_error 0] ok
    by (simp add: sample_job_def sample_server_def)
qed

lemma upload_url_shape:
  "\<exists>ps. make_url srv (upload_url_path srv upload_data) =
     ps @ ''//printer/'' @ (if start_print upload_data then ''job'' else ''model'') @ ''/'' @
     printername srv"
proof (cases "find_str (host srv) ''http://'' = Some 0 \<or> find_str (host srv) ''https://'' = Some 0")
  case scheme: True
  then have ne: "host srv \<noteq> []"
    using scheme_nonempty [of "host srv"] by (simp add: find_str_zero)
  show ?thesis
  proof (cases "last (host srv) = CHR ''/''")
    case True
    obtain b where b: "host srv = b @ ''/''"
      using append_butlast_last_id [OF ne] True by metis
    have "make_url srv (upload_url_path srv upload_data) =
        b @ ''//printer/'' @
        (if start_print upload_data then ''job'' else ''model'') @ ''/'' @ printername srv"
      using scheme True by (simp add: make_url_def upload_url_path_def b)
    then show ?thesis by (rule exI [of _ b])
  next
    case False
    with scheme have "make_url srv (upload_url_path srv upload_data) =
        host srv @ ''//printer/'' @
        (if start_print upload_data then ''job'' else ''model'') @ ''/'' @ printername srv"
      by (simp add: make_url_def upload_url_path_def)
    then show ?thesis by (rule exI [of _ "host srv"])
  qed
next
  case False
  then have "make_url srv (upload_url_path srv upload_data) =
      (''http://'' @ host srv) @ ''//printer/'' @
      (if start_print upload_data then ''job'' else ''model'') @ ''/'' @ printername srv"
    by (simp add: make_url_def upload_url_path_def)
  then show ?thesis by (rule exI [of _ "''http://'' @ host srv"])
qed

text \<open>
  Claim C5 fails on the code. The path \<^verbatim>\<open>upload\<close> gives to \<^verbatim>\<open>make_url\<close> starts with a
  \<^verbatim>\<open>/\<close>, and \<^verbatim>\<open>make_url\<close> ends the host part with one, so the URL of the POST has
  \<^verbatim>\<open>//printer/\<close> in it for every host: for the host \<^verbatim>\<open>example.com\<close>, the printer
  \<^verbatim>\<open>Mk3\<close> and \<^verbatim>\<open>start_print\<close> clear it is \<^verbatim>\<open>http://example.com//printer/model/Mk3\<close>,
  where the comment above the call and the probe's own \<^verbatim>\<open>make_url("printer/info")\<close>
  have a single slash.
\<close>

theorem upload_url_double_slash:
  "map url (requests (upload (sample_env (Transport_complete body_no_name 200)
                                ([], Transport_complete [] 200))
                        sample_server sample_job cancel_on_second ignore_error 0))
     = [''http://example.com/printer/info'', ''http://example.com//printer/model/Mk3''] \<and>
   sublist ''//printer/'' (make_url srv (upload_url_path srv upload_data))"
proof -
  let ?E = "sample_env (Transport_complete body_no_name 200) ([], Transport_complete [] 200)"
  have ok: "p_res (test ?E sample_server [])"
    by (rule sample_probe_passes)
  have a: "requests (upload ?E sample_server sample_job cancel_on_second ignore_error 0)
      = [probe_request sample_server, upload_request ?E sample_server sample_job]"
    by (rule upload_requests_passed [OF ok])
  have b: "url (probe_request sample_server) = ''http://example.com/printer/info''"
    by (simp add: probe_request_def set_auth_def header_def Http_get_def Let_def make_url_def
          sample_server_def)
  have c: "url (upload_request ?E sample_server sample_job)
      = ''http://example.com//printer/model/Mk3''"
    by (simp add: upload_request_meth_url make_url_def upload_url_path_def sample_server_def
          sample_job_def)
  obtain ps where eq: "make_url srv (upload_url_path srv upload_data) =
      ps @ ''//printer/'' @ ((if start_print upload_data then ''job'' else ''model'') @ ''/'' @
      printername srv)"
    using upload_url_shape [of srv upload_data] by blast
  have d: "sublist ''//printer/'' (make_url srv (upload_url_path srv upload_data))"
    unfolding eq by (rule sublist_appendI)
  have e: "map url (requests (upload ?E sample_server sample_job cancel_on_second ignore_error 0))
     = [''http://example.com/printer/info'', ''http://example.com//printer/model/Mk3'']"
    unfolding a by (simp add: b c)
  from e d show ?thesis by (rule conjI)
qed

end
